theory Spec2Isabelle
  imports Complex_Main "HOL-Library.Log_Nat"
begin

section \<open>Pong: the data model of main.go and controller.go\<close>

text \<open>
  The program is a two-paddle Pong. Its logic is three methods that mutate objects
  through pointers: \<^verbatim>\<open>FollowBall.Input\<close>, \<^verbatim>\<open>Player.Update\<close> and
  \<^verbatim>\<open>Ball.Update\<close>. The embedding keeps the objects in an explicit store, one
  heap per struct type, and a pointer is an address into the heap of its type. Pointer
  equality (\<^verbatim>\<open>ptr == b\<close>) is equality of addresses.

  Conventions of the embedding:
  \<^item> a \<^verbatim>\<open>float64\<close> value is a \<^typ>\<open>real\<close>; infinities and NaN are outside the
    model. In \<^verbatim>\<open>Player.Update\<close>, whose bounds depend on it, every sum, difference and
    product is rounded to binary64 by the function \<open>float64\<close> below. In the controllers
    and in \<^verbatim>\<open>Ball.Update\<close> the arithmetic is exact: what is proved of them rests on the
    order of the tests, on the integer counter and on the sign of a velocity, which
    negation keeps exact;
  \<^item> a pointer is never nil, except the interface field \<^verbatim>\<open>Player.Controller\<close>,
    which the source tests against nil and which is an \<^typ>\<open>'a option\<close> here;
  \<^item> of the library type \<^verbatim>\<open>ebiten.Image\<close> only what the source reads is kept:
    the corner \<^verbatim>\<open>Bounds().Max\<close>, two integers; their conversion to \<^verbatim>\<open>float64\<close> is
    exact, as it is for every integer below \<open>2 ^ 53\<close>;
  \<^item> the counter \<^verbatim>\<open>FollowBall.count\<close> is an \<^typ>\<open>int\<close>: the source adds 15 only
    to a counter that is not positive and subtracts 1 only from a positive one, so the
    machine integer never wraps.
\<close>

definition screenWidth :: real where
  "screenWidth = 320"

definition screenHeight :: real where
  "screenHeight = 240"

datatype Direction = Up | Down | Nothing

type_synonym addr = nat

record Image =
  Bounds_Max_X :: int
  Bounds_Max_Y :: int

record Point =
  X :: real
  Y :: real

definition Location :: "'a Point_scheme \<Rightarrow> real \<times> real" where
  "Location p = (X p, Y p)"

record FollowBall =
  Ball_ptr :: addr
  Player_ptr :: addr
  lastDecision :: Direction
  count :: int

text \<open>
  A \<^verbatim>\<open>Controller\<close> interface value: a pointer to an \<^verbatim>\<open>ArrowKeys\<close> (a struct with
  no fields, so the address carries nothing) or to a \<^verbatim>\<open>FollowBall\<close>.
\<close>

datatype Controller = ArrowKeysPtr | FollowBallPtr addr

record Player = Point +
  Sprite :: Image
  Controller :: "Controller option"
  Speed :: real

record Ball = Point +
  Sprite :: Image
  XSpeed :: real
  YSpeed :: real

text \<open>
  A \<^verbatim>\<open>Collider\<close> interface value. The types of the program with the three methods
  \<^verbatim>\<open>Height\<close>, \<^verbatim>\<open>Width\<close> and \<^verbatim>\<open>Location\<close> are \<^verbatim>\<open>*Player\<close> and \<^verbatim>\<open>*Ball\<close>.
\<close>

datatype Collider = PlayerPtr addr | BallPtr addr

record Store =
  balls :: "addr \<Rightarrow> Ball"
  players :: "addr \<Rightarrow> Player"
  followballs :: "addr \<Rightarrow> FollowBall"

text \<open>The two key states that \<^verbatim>\<open>ebiten.IsKeyPressed\<close> reports in one tick.\<close>

record Keys =
  KeyArrowUp :: bool
  KeyArrowDown :: bool

datatype error = SelfCollision

section \<open>Geometry\<close>

definition Player_Height :: "Player \<Rightarrow> real" where
  "Player_Height p = real_of_int (Bounds_Max_Y (Player.Sprite p))"

definition Player_Width :: "Player \<Rightarrow> real" where
  "Player_Width p = real_of_int (Bounds_Max_X (Player.Sprite p))"

definition Ball_Height :: "Ball \<Rightarrow> real" where
  "Ball_Height b = real_of_int (Bounds_Max_Y (Ball.Sprite b))"

definition Ball_Width :: "Ball \<Rightarrow> real" where
  "Ball_Width b = real_of_int (Bounds_Max_X (Ball.Sprite b))"

text \<open>Dynamic dispatch of the three \<^verbatim>\<open>Collider\<close> methods.\<close>

fun Collider_Height :: "Store \<Rightarrow> Collider \<Rightarrow> real" where
  "Collider_Height st (PlayerPtr a) = Player_Height (players st a)"
| "Collider_Height st (BallPtr a) = Ball_Height (balls st a)"

fun Collider_Width :: "Store \<Rightarrow> Collider \<Rightarrow> real" where
  "Collider_Width st (PlayerPtr a) = Player_Width (players st a)"
| "Collider_Width st (BallPtr a) = Ball_Width (balls st a)"

fun Collider_Location :: "Store \<Rightarrow> Collider \<Rightarrow> real \<times> real" where
  "Collider_Location st (PlayerPtr a) = Location (players st a)"
| "Collider_Location st (BallPtr a) = Location (balls st a)"

section \<open>Controllers\<close>

definition ArrowKeys_Input :: "Keys \<Rightarrow> Direction" where
  "ArrowKeys_Input k =
     (let upPressed = KeyArrowUp k; downPressed = KeyArrowDown k
      in if upPressed = downPressed then Nothing
         else if upPressed then Up
         else Down)"

definition decisionBuffer :: int where
  "decisionBuffer = 15"

text \<open>
  \<^verbatim>\<open>FollowBall.Input\<close> on the controller at address \<open>f\<close>: the decision, and the store
  with the controller's own fields updated.
\<close>

definition FollowBall_Input :: "Store \<Rightarrow> addr \<Rightarrow> Direction \<times> Store" where
  "FollowBall_Input st f =
     (let fb = followballs st f;
          (ballX, ballY) = Location (balls st (Ball_ptr fb));
          (x, y) = Location (players st (Player_ptr fb))
      in if count fb > 0
         then (lastDecision fb,
               st\<lparr>followballs := (followballs st)(f := fb\<lparr>count := count fb - 1\<rparr>)\<rparr>)
         else if \<bar>ballX - x\<bar> < 0.6 * screenWidth
         then (if ballY < y - Speed (players st (Player_ptr fb))
               then (Up, st\<lparr>followballs := (followballs st)
                           (f := fb\<lparr>count := count fb + decisionBuffer, lastDecision := Up\<rparr>)\<rparr>)
               else if ballY > y + Speed (players st (Player_ptr fb))
               then (Down, st\<lparr>followballs := (followballs st)
                           (f := fb\<lparr>count := count fb + decisionBuffer, lastDecision := Down\<rparr>)\<rparr>)
               else (Nothing, st))
         else (Nothing, st))"

fun Controller_Input :: "Keys \<Rightarrow> Store \<Rightarrow> Controller \<Rightarrow> Direction \<times> Store" where
  "Controller_Input k st ArrowKeysPtr = (ArrowKeys_Input k, st)"
| "Controller_Input k st (FollowBallPtr f) = FollowBall_Input st f"

text \<open>
  Successive calls of \<^verbatim>\<open>Input\<close> on the controller \<open>f\<close>, as the game loop makes
  them, one per tick. Between two calls the rest of the program moves the balls and the
  players: each element of the list is the state it has put them in before the next call.
\<close>

fun FollowBall_Inputs ::
  "Store \<Rightarrow> addr \<Rightarrow> ((addr \<Rightarrow> Ball) \<times> (addr \<Rightarrow> Player)) list \<Rightarrow> Direction list \<times> Store" where
  "FollowBall_Inputs st f [] = ([], st)"
| "FollowBall_Inputs st f ((bs, ps) # es) =
     (let (d, st1) = FollowBall_Input (st\<lparr>balls := bs, players := ps\<rparr>) f;
          (ds, st2) = FollowBall_Inputs st1 f es
      in (d # ds, st2))"

section \<open>Rounding to binary64\<close>

text \<open>
  The result of a \<^verbatim>\<open>float64\<close> operation is the exact result rounded to the nearest
  number with a significand of 53 bits, a tie going to the even significand. The number
  \<open>binade x\<close> is the exponent \<open>e\<close> with \<open>2 powi e \<le> \<bar>x\<bar> < 2 powi (e + 1)\<close>, computed from
  the bit length of an integer; the spacing of the 53-bit numbers there is
  \<open>2 powi (e - 52)\<close>. The exponent is not bounded: overflow to an infinity and the
  subnormal numbers below \<open>2 powi (- 1022)\<close> are outside the model.
\<close>

definition binade :: "real \<Rightarrow> int" where
  "binade x =
     (if \<bar>x\<bar> \<ge> 1 then bitlen \<lfloor>\<bar>x\<bar>\<rfloor> - 1 else - bitlen (\<lceil>1 / \<bar>x\<bar>\<rceil> - 1))"

definition round_even :: "real \<Rightarrow> int" where
  "round_even q =
     (let f = \<lfloor>q\<rfloor>; r = q - of_int f
      in if r < 1 / 2 then f
         else if r > 1 / 2 then f + 1
         else if even f then f
         else f + 1)"

definition float64 :: "real \<Rightarrow> real" where
  "float64 x =
     (if x = 0 then 0
      else (let ulp = 2 powi (binade x - 52)
            in of_int (round_even (x / ulp)) * ulp))"

section \<open>Player.Update\<close>

text \<open>
  The player at address \<open>a\<close> reads its controller once and then runs the two
  \<^verbatim>\<open>if\<close> statements in turn, the second on the fields the first has left. Every
  arithmetic operation of the source is one rounded operation here; the comparisons are
  exact, as they are on \<^verbatim>\<open>float64\<close> values.
\<close>

definition Player_Update :: "Keys \<Rightarrow> Store \<Rightarrow> addr \<Rightarrow> Store" where
  "Player_Update k st a =
     (case Controller (players st a) of
        None \<Rightarrow> st
      | Some c \<Rightarrow>
          (let (dir, st1) = Controller_Input k st c;
               p = players st1 a;
               p1 = (if dir = Up \<and> float64 (Y p - float64 (Speed p * 2)) \<ge> 0
                     then p\<lparr>Y := float64 (Y p - Speed p)\<rparr> else p);
               p2 = (if dir = Down
                        \<and> float64 (float64 (Y p1 + Player_Height p1) + float64 (Speed p1 * 2))
                            \<le> screenHeight
                     then p1\<lparr>Y := float64 (Y p1 + Speed p1)\<rparr> else p1)
           in st1\<lparr>players := (players st1)(a := p2)\<rparr>))"

section \<open>Ball.Update\<close>

text \<open>
  The local variables of the loop body, for the ball \<open>b\<close> and the collider \<open>c\<close>, on the
  store \<open>st\<close>.
\<close>

definition inPaddle :: "Store \<Rightarrow> Ball \<Rightarrow> Collider \<Rightarrow> bool" where
  "inPaddle st b c =
     (let (cX, cY) = Collider_Location st c;
          inXArea = (X b + Ball_Width b \<ge> cX \<and> X b \<le> cX + Collider_Width st c);
          inYArea = (Y b \<ge> cY \<and> Y b + Ball_Height b \<le> cY + Collider_Height st c)
      in inXArea \<and> inYArea)"

definition inPaddleNextTick :: "Store \<Rightarrow> Ball \<Rightarrow> Collider \<Rightarrow> bool" where
  "inPaddleNextTick st b c =
     (let (cX, cY) = Collider_Location st c;
          nextX = X b + XSpeed b;
          nextY = Y b + YSpeed b;
          inNextX = (nextX + Ball_Width b \<ge> cX \<and> nextX \<le> cX + Collider_Width st c);
          inNextY = (nextY \<ge> cY \<and> nextY + Ball_Height b \<le> cY + Collider_Height st c)
      in inNextX \<and> inNextY)"

text \<open>
  The \<^verbatim>\<open>for\<close> loop over the colliders, for the ball at address \<open>b\<close>. It ends in one of
  three ways: the panic, the \<^verbatim>\<open>break\<close> after the bounce, or the end of the list.
\<close>

fun Update_scan :: "Store \<Rightarrow> addr \<Rightarrow> Collider list \<Rightarrow> error + Store" where
  "Update_scan st b [] = Inr st"
| "Update_scan st b (c # cs) =
     (if c = BallPtr b then Inl SelfCollision
      else if \<not> inPaddle st (balls st b) c \<and> inPaddleNextTick st (balls st b) c
      then Inr (st\<lparr>balls := (balls st)(b := (balls st b)\<lparr>XSpeed := XSpeed (balls st b) * (- 1)\<rparr>)\<rparr>)
      else Update_scan st b cs)"

text \<open>The statements after the loop: the two screen-edge tests and the move.\<close>

definition Update_edges :: "Ball \<Rightarrow> Ball" where
  "Update_edges b =
     (let b1 = (if X b \<le> 0 \<or> X b + Ball_Width b \<ge> screenWidth
                then b\<lparr>XSpeed := - XSpeed b\<rparr> else b);
          b2 = (if Y b1 \<le> 0 \<or> Y b1 + Ball_Height b1 \<ge> screenHeight
                then b1\<lparr>YSpeed := - YSpeed b1\<rparr> else b1);
          b3 = b2\<lparr>X := X b2 + XSpeed b2\<rparr>
      in b3\<lparr>Y := Y b3 + YSpeed b3\<rparr>)"

definition Ball_Update :: "Store \<Rightarrow> addr \<Rightarrow> Collider list \<Rightarrow> error + Store" where
  "Ball_Update st b colliders =
     (case Update_scan st b colliders of
        Inl e \<Rightarrow> Inl e
      | Inr st1 \<Rightarrow> Inr (st1\<lparr>balls := (balls st1)(b := Update_edges (balls st1 b))\<rparr>))"

section \<open>The objects that setup creates\<close>

text \<open>
  \<^verbatim>\<open>setup\<close> fills the \<^verbatim>\<open>Game\<close> struct. Here \<^verbatim>\<open>game.player1\<close> is the player at
  address 1, \<^verbatim>\<open>game.player2\<close> the player at address 2, \<^verbatim>\<open>game.ball\<close> the ball at
  address 0 and \<^verbatim>\<open>fb\<close> the controller at address 0. No other address is in use.
\<close>

definition setup_game :: Store where
  "setup_game =
     (let playerWidth = 10; playerHeight = 50; playerSpeed = 2;
          playerSprite = \<lparr>Bounds_Max_X = playerWidth, Bounds_Max_Y = playerHeight\<rparr>;
          ballWidth = 10;
          ballSprite = \<lparr>Bounds_Max_X = ballWidth, Bounds_Max_Y = ballWidth\<rparr>;
          player1 = \<lparr>X = 0, Y = 0, Player.Sprite = playerSprite,
                     Controller = Some ArrowKeysPtr, Speed = playerSpeed\<rparr>;
          player2 = \<lparr>X = screenWidth - real_of_int playerWidth,
                     Y = screenHeight - real_of_int playerHeight,
                     Player.Sprite = playerSprite,
                     Controller = Some (FollowBallPtr 0), Speed = playerSpeed\<rparr>;
          ball = \<lparr>X = screenWidth / 2 - real_of_int ballWidth / 2,
                  Y = screenHeight / 2 - real_of_int ballWidth / 2,
                  Ball.Sprite = ballSprite, XSpeed = 1, YSpeed = 1\<rparr>;
          fb = \<lparr>Ball_ptr = 0, Player_ptr = 2, lastDecision = Up, count = 0\<rparr>
      in \<lparr>balls = (\<lambda>_. ball),
          players = (\<lambda>_. player1)(2 := player2),
          followballs = (\<lambda>_. fb)\<rparr>)"

section \<open>Overlap of boxes, in the words of the specification\<close>

text \<open>
  The specification describes the two tests of the loop as the overlap of two
  axis-aligned bounding boxes: their X extents intersect and their Y extents intersect.
  The two definitions below follow those words, not the source. The extent of a box on
  an axis is the closed interval from its coordinate to the coordinate plus its size, so
  boxes that only touch count as overlapping.
\<close>

definition spec_extents_intersect :: "real \<Rightarrow> real \<Rightarrow> real \<Rightarrow> real \<Rightarrow> bool" where
  "spec_extents_intersect lo1 size1 lo2 size2 =
     (max lo1 lo2 \<le> min (lo1 + size1) (lo2 + size2))"

definition spec_boxes_overlap :: "Store \<Rightarrow> Ball \<Rightarrow> Collider \<Rightarrow> bool" where
  "spec_boxes_overlap st b c =
     (let (cX, cY) = Collider_Location st c
      in spec_extents_intersect (X b) (Ball_Width b) cX (Collider_Width st c)
       \<and> spec_extents_intersect (Y b) (Ball_Height b) cY (Collider_Height st c))"

section \<open>Auxiliary facts\<close>

lemma setup_game_balls:
  "balls setup_game a =
     \<lparr>X = 155, Y = 115, Ball.Sprite = \<lparr>Bounds_Max_X = 10, Bounds_Max_Y = 10\<rparr>,
      XSpeed = 1, YSpeed = 1\<rparr>"
  by (simp add: setup_game_def Let_def screenWidth_def screenHeight_def)

lemma setup_game_player1:
  "players setup_game 1 =
     \<lparr>X = 0, Y = 0, Player.Sprite = \<lparr>Bounds_Max_X = 10, Bounds_Max_Y = 50\<rparr>,
      Controller = Some ArrowKeysPtr, Speed = 2\<rparr>"
  by (simp add: setup_game_def Let_def)

lemma setup_game_player1_Suc:
  "players setup_game (Suc 0) =
     \<lparr>X = 0, Y = 0, Player.Sprite = \<lparr>Bounds_Max_X = 10, Bounds_Max_Y = 50\<rparr>,
      Controller = Some ArrowKeysPtr, Speed = 2\<rparr>"
  using setup_game_player1 by simp

lemma setup_game_player2:
  "players setup_game 2 =
     \<lparr>X = 310, Y = 190, Player.Sprite = \<lparr>Bounds_Max_X = 10, Bounds_Max_Y = 50\<rparr>,
      Controller = Some (FollowBallPtr 0), Speed = 2\<rparr>"
  by (simp add: setup_game_def Let_def screenWidth_def screenHeight_def)

lemma setup_game_followballs:
  "followballs setup_game f =
     \<lparr>Ball_ptr = 0, Player_ptr = 2, lastDecision = Up, count = 0\<rparr>"
  by (simp add: setup_game_def Let_def)

lemmas setup_game_simps =
  setup_game_balls setup_game_player1 setup_game_player1_Suc setup_game_player2
  setup_game_followballs

lemmas geometry_defs =
  Location_def Player_Height_def Player_Width_def Ball_Height_def Ball_Width_def
  inPaddle_def inPaddleNextTick_def screenWidth_def screenHeight_def
















lemma balls_FollowBall_Input: "balls (snd (FollowBall_Input st f)) = balls st"
  by (simp add: FollowBall_Input_def Let_def split: prod.splits)


text \<open>The loop of \<^verbatim>\<open>Ball.Update\<close> leaves the store as it is or negates \<open>XSpeed\<close>.\<close>

lemma Update_scan_cases:
  "Update_scan st b cs = Inr st1 \<Longrightarrow>
     st1 = st \<or>
     st1 = st\<lparr>balls := (balls st)(b := (balls st b)\<lparr>XSpeed := - XSpeed (balls st b)\<rparr>)\<rparr>"
  by (induction cs) (auto split: if_splits)

lemma Update_edges_speeds:
  "\<bar>XSpeed (Update_edges b)\<bar> = \<bar>XSpeed b\<bar> \<and> \<bar>YSpeed (Update_edges b)\<bar> = \<bar>YSpeed b\<bar>"
  by (simp add: Update_edges_def Let_def)

text \<open>The arithmetic test of the specification is the intersection of two intervals.\<close>

lemma spec_extents_intersect_sets:
  "spec_extents_intersect lo1 size1 lo2 size2
     \<longleftrightarrow> {lo1 .. lo1 + size1} \<inter> {lo2 .. lo2 + size2} \<noteq> {}"
  by (auto simp: spec_extents_intersect_def Int_atLeastAtMost)

lemma Update_scan_no_trigger:
  "Update_scan st b cs = Inr st1 \<Longrightarrow>
   \<forall>c\<in>set cs. inPaddle st (balls st b) c \<or> \<not> inPaddleNextTick st (balls st b) c \<Longrightarrow>
   st1 = st"
  by (induction cs) (auto split: if_splits)

lemma Update_edges_XSpeed:
  "XSpeed (Update_edges b) =
     (if X b \<le> 0 \<or> X b + Ball_Width b \<ge> screenWidth then - XSpeed b else XSpeed b)"
  by (simp add: Update_edges_def Let_def)

lemma Update_edges_YSpeed:
  "YSpeed (Update_edges b) =
     (if Y b \<le> 0 \<or> Y b + Ball_Height b \<ge> screenHeight then - YSpeed b else YSpeed b)"
  by (simp add: Update_edges_def Let_def Ball_Height_def)

text \<open>
  The loop panics exactly when it reaches the ball itself, which it does when no collider
  before that place in the list has made it break.
\<close>

lemma Update_scan_panics_iff:
  "Update_scan st b cs = Inl SelfCollision \<longleftrightarrow>
     (\<exists>pre post. cs = pre @ BallPtr b # post
        \<and> (\<forall>d\<in>set pre. inPaddle st (balls st b) d \<or> \<not> inPaddleNextTick st (balls st b) d))"
proof (induction cs)
  case Nil
  then show ?case by simp
next
  case (Cons c cs)
  let ?quiet = "\<lambda>d. inPaddle st (balls st b) d \<or> \<not> inPaddleNextTick st (balls st b) d"
  show ?case
  proof (cases "c = BallPtr b")
    case True
    then have "c # cs = [] @ BallPtr b # cs \<and> (\<forall>d\<in>set []. ?quiet d)" by simp
    then have "\<exists>pre post. c # cs = pre @ BallPtr b # post \<and> (\<forall>d\<in>set pre. ?quiet d)"
      by blast
    with True show ?thesis by simp
  next
    case other: False
    show ?thesis
    proof (cases "?quiet c")
      case False
      have "\<not> (\<exists>pre post. c # cs = pre @ BallPtr b # post \<and> (\<forall>d\<in>set pre. ?quiet d))"
      proof
        assume "\<exists>pre post. c # cs = pre @ BallPtr b # post \<and> (\<forall>d\<in>set pre. ?quiet d)"
        then obtain pre post where split: "c # cs = pre @ BallPtr b # post"
          and quiet: "\<forall>d\<in>set pre. ?quiet d" by blast
        from split other obtain pre' where "pre = c # pre'" by (cases pre) auto
        with quiet False show False by simp
      qed
      with False other show ?thesis by simp
    next
      case True
      have "(\<exists>pre post. cs = pre @ BallPtr b # post \<and> (\<forall>d\<in>set pre. ?quiet d))
        \<longleftrightarrow> (\<exists>pre post. c # cs = pre @ BallPtr b # post \<and> (\<forall>d\<in>set pre. ?quiet d))"
        (is "?R \<longleftrightarrow> ?L")
      proof
        assume ?L
        then obtain pre post where split: "c # cs = pre @ BallPtr b # post"
          and quiet: "\<forall>d\<in>set pre. ?quiet d" by blast
        from split other obtain pre' where "pre = c # pre'" by (cases pre) auto
        with split quiet have "cs = pre' @ BallPtr b # post \<and> (\<forall>d\<in>set pre'. ?quiet d)"
          by simp
        then show ?R by blast
      next
        assume ?R
        then obtain pre post where split: "cs = pre @ BallPtr b # post"
          and quiet: "\<forall>d\<in>set pre. ?quiet d" by blast
        with True have "c # cs = (c # pre) @ BallPtr b # post \<and> (\<forall>d\<in>set (c # pre). ?quiet d)"
          by simp
        then show ?L by blast
      qed
      then have eqv: "?R \<longleftrightarrow> ?L" .
      from True other have step: "Update_scan st b (c # cs) = Update_scan st b cs"
        by auto
      show ?thesis unfolding step Cons.IH by (rule eqv)
    qed
  qed
qed

text \<open>Calls of \<^verbatim>\<open>FollowBall.Input\<close>, one at a time.\<close>

lemma FollowBall_Input_window:
  assumes "count (followballs st f) > 0"
  shows "FollowBall_Input st f =
     (lastDecision (followballs st f),
      st\<lparr>followballs := (followballs st)
           (f := (followballs st f)\<lparr>count := count (followballs st f) - 1\<rparr>)\<rparr>)"
  using assms by (simp add: FollowBall_Input_def Let_def split: prod.splits)

lemma FollowBall_Input_fresh:
  assumes "count (followballs st f) \<le> 0"
  shows "fst (FollowBall_Input st f) =
     (if \<bar>X (balls st (Ball_ptr (followballs st f)))
           - X (players st (Player_ptr (followballs st f)))\<bar> < 0.6 * screenWidth
      then if Y (balls st (Ball_ptr (followballs st f)))
                < Y (players st (Player_ptr (followballs st f)))
                  - Speed (players st (Player_ptr (followballs st f)))
           then Up
           else if Y (balls st (Ball_ptr (followballs st f)))
                > Y (players st (Player_ptr (followballs st f)))
                  + Speed (players st (Player_ptr (followballs st f)))
           then Down else Nothing
      else Nothing)"
  using assms by (simp add: FollowBall_Input_def Let_def Location_def)

lemma FollowBall_Input_decision:
  assumes "count (followballs st f) = 0" "FollowBall_Input st f = (d, st1)" "d \<noteq> Nothing"
  shows "followballs st1 f = (followballs st f)\<lparr>count := 15, lastDecision := d\<rparr>"
  using assms
  by (auto simp: FollowBall_Input_def Let_def Location_def decisionBuffer_def split: if_splits)

lemma FollowBall_Input_invariant:
  assumes "0 \<le> count (followballs st f)" "count (followballs st f) \<le> 15"
    "count (followballs st f) > 0 \<longrightarrow> lastDecision (followballs st f) \<noteq> Nothing"
  shows "0 \<le> count (followballs (snd (FollowBall_Input st f)) f)
       \<and> count (followballs (snd (FollowBall_Input st f)) f) \<le> 15
       \<and> (count (followballs (snd (FollowBall_Input st f)) f) > 0
            \<longrightarrow> lastDecision (followballs (snd (FollowBall_Input st f)) f) \<noteq> Nothing)"
  using assms
  by (simp add: FollowBall_Input_def Let_def Location_def decisionBuffer_def split: prod.splits)

text \<open>Runs of calls.\<close>

lemma FollowBall_Inputs_Cons:
  "fst (FollowBall_Inputs st f ((bs, ps) # es)) =
     fst (FollowBall_Input (st\<lparr>balls := bs, players := ps\<rparr>) f)
       # fst (FollowBall_Inputs (snd (FollowBall_Input (st\<lparr>balls := bs, players := ps\<rparr>) f)) f es)"
  "snd (FollowBall_Inputs st f ((bs, ps) # es)) =
     snd (FollowBall_Inputs (snd (FollowBall_Input (st\<lparr>balls := bs, players := ps\<rparr>) f)) f es)"
  by (simp_all add: case_prod_unfold Let_def)

lemma FollowBall_Inputs_window:
  "count (followballs st f) = int (length es) \<Longrightarrow>
   fst (FollowBall_Inputs st f es) = replicate (length es) (lastDecision (followballs st f))
   \<and> followballs (snd (FollowBall_Inputs st f es)) f = (followballs st f)\<lparr>count := 0\<rparr>"
proof (induction es arbitrary: st)
  case Nil
  then show ?case by simp
next
  case (Cons e es)
  obtain bs ps where e: "e = (bs, ps)" by (cases e)
  let ?st = "st\<lparr>balls := bs, players := ps\<rparr>"
  let ?st1 = "?st\<lparr>followballs := (followballs ?st)
                (f := (followballs ?st f)\<lparr>count := count (followballs ?st f) - 1\<rparr>)\<rparr>"
  from Cons.prems have pos: "count (followballs ?st f) > 0" by simp
  have step: "FollowBall_Input ?st f = (lastDecision (followballs st f), ?st1)"
    using FollowBall_Input_window [OF pos] by simp
  from Cons.prems have "count (followballs ?st1 f) = int (length es)" by simp
  from Cons.IH [OF this]
  have ih: "fst (FollowBall_Inputs ?st1 f es) = replicate (length es) (lastDecision (followballs st f))"
    "followballs (snd (FollowBall_Inputs ?st1 f es)) f = (followballs st f)\<lparr>count := 0\<rparr>"
    by simp_all
  from step ih show ?case
    unfolding e FollowBall_Inputs_Cons by simp
qed

lemma FollowBall_Inputs_invariant:
  "0 \<le> count (followballs st f) \<Longrightarrow> count (followballs st f) \<le> 15 \<Longrightarrow>
   (count (followballs st f) > 0 \<longrightarrow> lastDecision (followballs st f) \<noteq> Nothing) \<Longrightarrow>
   0 \<le> count (followballs (snd (FollowBall_Inputs st f es)) f)
   \<and> count (followballs (snd (FollowBall_Inputs st f es)) f) \<le> 15
   \<and> (count (followballs (snd (FollowBall_Inputs st f es)) f) > 0
        \<longrightarrow> lastDecision (followballs (snd (FollowBall_Inputs st f es)) f) \<noteq> Nothing)"
proof (induction es arbitrary: st)
  case Nil
  then show ?case by simp
next
  case (Cons e es)
  obtain bs ps where e: "e = (bs, ps)" by (cases e)
  let ?st = "st\<lparr>balls := bs, players := ps\<rparr>"
  obtain d st1 where step: "FollowBall_Input ?st f = (d, st1)"
    by (cases "FollowBall_Input ?st f")
  from Cons.prems have "0 \<le> count (followballs ?st f)" "count (followballs ?st f) \<le> 15"
    "count (followballs ?st f) > 0 \<longrightarrow> lastDecision (followballs ?st f) \<noteq> Nothing"
    by simp_all
  from FollowBall_Input_invariant [OF this] step
  have "0 \<le> count (followballs st1 f)" "count (followballs st1 f) \<le> 15"
    "count (followballs st1 f) > 0 \<longrightarrow> lastDecision (followballs st1 f) \<noteq> Nothing"
    by simp_all
  from Cons.IH [OF this] step show ?case
    unfolding e FollowBall_Inputs_Cons by simp
qed

section \<open>Ball.Update conserves the speed on each axis\<close>

text \<open>
  C5. Every call of \<^verbatim>\<open>Ball.Update\<close> that returns leaves the absolute value of
  \<open>XSpeed\<close> and the absolute value of \<open>YSpeed\<close> as they were: the loop and the edge
  tests only negate a component.
\<close>

theorem Ball_Update_conserves_speed:
  assumes "Ball_Update st b cs = Inr st'"
  shows "\<bar>XSpeed (balls st' b)\<bar> = \<bar>XSpeed (balls st b)\<bar>
       \<and> \<bar>YSpeed (balls st' b)\<bar> = \<bar>YSpeed (balls st b)\<bar>"
  using assms
  by (auto simp: Ball_Update_def Update_edges_speeds split: sum.splits dest!: Update_scan_cases)

text \<open>The first tick of the game: the ball moves from (155, 115) to (156, 116).\<close>

theorem Ball_Update_conserves_speed_witness:
  "Ball_Update setup_game 0 [PlayerPtr 1, PlayerPtr 2]
     = Inr (setup_game\<lparr>balls := (balls setup_game)
              (0 := \<lparr>X = 156, Y = 116, Ball.Sprite = \<lparr>Bounds_Max_X = 10, Bounds_Max_Y = 10\<rparr>,
                     XSpeed = 1, YSpeed = 1\<rparr>)\<rparr>)
   \<and> \<bar>XSpeed (balls (setup_game\<lparr>balls := (balls setup_game)
              (0 := \<lparr>X = 156, Y = 116, Ball.Sprite = \<lparr>Bounds_Max_X = 10, Bounds_Max_Y = 10\<rparr>,
                     XSpeed = 1, YSpeed = 1\<rparr>)\<rparr>) 0)\<bar> = \<bar>XSpeed (balls setup_game 0)\<bar>
   \<and> \<bar>YSpeed (balls (setup_game\<lparr>balls := (balls setup_game)
              (0 := \<lparr>X = 156, Y = 116, Ball.Sprite = \<lparr>Bounds_Max_X = 10, Bounds_Max_Y = 10\<rparr>,
                     XSpeed = 1, YSpeed = 1\<rparr>)\<rparr>) 0)\<bar> = \<bar>YSpeed (balls setup_game 0)\<bar>"
proof -
  have h: "Ball_Update setup_game 0 [PlayerPtr 1, PlayerPtr 2]
     = Inr (setup_game\<lparr>balls := (balls setup_game)
              (0 := \<lparr>X = 156, Y = 116, Ball.Sprite = \<lparr>Bounds_Max_X = 10, Bounds_Max_Y = 10\<rparr>,
                     XSpeed = 1, YSpeed = 1\<rparr>)\<rparr>)"
    by (simp add: Ball_Update_def Update_edges_def setup_game_simps geometry_defs Let_def)
  from Ball_Update_conserves_speed [OF h] h show ?thesis by simp
qed

section \<open>FollowBall: a ball out of sight\<close>

text \<open>
  C6. When the commit counter of a \<^verbatim>\<open>FollowBall\<close> is 0 and the horizontal distance
  between the ball and the paddle is at least 0.6 times the screen width, \<^verbatim>\<open>Input\<close>
  returns \<open>Nothing\<close> and changes nothing, so the counter is still 0.
\<close>

theorem FollowBall_Input_out_of_sight:
  assumes "count (followballs st f) = 0"
    and "\<bar>X (balls st (Ball_ptr (followballs st f)))
          - X (players st (Player_ptr (followballs st f)))\<bar> \<ge> 0.6 * screenWidth"
  shows "FollowBall_Input st f = (Nothing, st)
       \<and> count (followballs (snd (FollowBall_Input st f)) f) = 0"
  using assms by (simp add: FollowBall_Input_def Let_def Location_def)

text \<open>The ball at X = 100 is 210 away from the paddle at X = 310, and 0.6 * 320 = 192.\<close>

theorem FollowBall_Input_out_of_sight_witness:
  "count (followballs (setup_game\<lparr>balls := (balls setup_game)(0 := (balls setup_game 0)\<lparr>X := 100\<rparr>)\<rparr>) 0) = 0
   \<and> FollowBall_Input (setup_game\<lparr>balls := (balls setup_game)(0 := (balls setup_game 0)\<lparr>X := 100\<rparr>)\<rparr>) 0
       = (Nothing, setup_game\<lparr>balls := (balls setup_game)(0 := (balls setup_game 0)\<lparr>X := 100\<rparr>)\<rparr>)"
proof -
  let ?st = "setup_game\<lparr>balls := (balls setup_game)(0 := (balls setup_game 0)\<lparr>X := 100\<rparr>)\<rparr>"
  have h1: "count (followballs ?st 0) = 0"
    by (simp add: setup_game_simps)
  have h2: "\<bar>X (balls ?st (Ball_ptr (followballs ?st 0)))
          - X (players ?st (Player_ptr (followballs ?st 0)))\<bar> \<ge> 0.6 * screenWidth"
    by (simp add: setup_game_simps screenWidth_def)
  from FollowBall_Input_out_of_sight [OF h1 h2] h1 show ?thesis by simp
qed

section \<open>Player.Update without a controller\<close>

text \<open>
  C9. When the \<^verbatim>\<open>Controller\<close> field of a player is nil, \<^verbatim>\<open>Player.Update\<close> changes
  nothing: the store is the same, and with it the player's \<open>X\<close>, \<open>Y\<close>, \<open>Speed\<close> and
  \<open>Sprite\<close>.
\<close>

theorem Player_Update_nil_Controller:
  assumes "Controller (players st a) = None"
  shows "Player_Update k st a = st
       \<and> X (players (Player_Update k st a) a) = X (players st a)
       \<and> Y (players (Player_Update k st a) a) = Y (players st a)
       \<and> Speed (players (Player_Update k st a) a) = Speed (players st a)
       \<and> Player.Sprite (players (Player_Update k st a) a) = Player.Sprite (players st a)"
  using assms by (simp add: Player_Update_def)

text \<open>
  The second player as \<^verbatim>\<open>setup\<close> first builds it, before the controller is attached,
  with the Down key held.
\<close>

theorem Player_Update_nil_Controller_witness:
  "Controller (players (setup_game\<lparr>players := (players setup_game)
       (2 := (players setup_game 2)\<lparr>Controller := None\<rparr>)\<rparr>) 2) = None
   \<and> Player_Update \<lparr>KeyArrowUp = False, KeyArrowDown = True\<rparr>
       (setup_game\<lparr>players := (players setup_game)
          (2 := (players setup_game 2)\<lparr>Controller := None\<rparr>)\<rparr>) 2
     = setup_game\<lparr>players := (players setup_game)
          (2 := (players setup_game 2)\<lparr>Controller := None\<rparr>)\<rparr>"
proof -
  let ?st = "setup_game\<lparr>players := (players setup_game)
       (2 := (players setup_game 2)\<lparr>Controller := None\<rparr>)\<rparr>"
  have h: "Controller (players ?st 2) = None" by simp
  from Player_Update_nil_Controller [OF h] h show ?thesis by simp
qed

section \<open>The collider loop of Ball.Update\<close>

text \<open>
  C8, as the claim states it, fails. The claim reads \<open>inPaddle\<close> as the overlap of the two
  boxes. With the paddle of the first player at (0, 0), 10 wide and 50 high, and the ball,
  10 by 10, at (5, 45), the boxes overlap on both axes, and \<open>inPaddle\<close> is false: the ball
  reaches below the paddle.
\<close>

theorem inPaddle_is_not_overlap:
  "spec_boxes_overlap setup_game ((balls setup_game 0)\<lparr>X := 5, Y := 45\<rparr>) (PlayerPtr 1)
   \<and> \<not> inPaddle setup_game ((balls setup_game 0)\<lparr>X := 5, Y := 45\<rparr>) (PlayerPtr 1)"
  by (simp add: spec_boxes_overlap_def spec_extents_intersect_def setup_game_simps geometry_defs)

text \<open>
  C8, amended. For boxes of sizes that are not negative, \<open>inPaddle\<close> holds exactly when
  the X extents of the ball and of the collider intersect and the Y extent of the ball
  lies within the Y extent of the collider; \<open>inPaddleNextTick\<close> is the same test for the
  ball moved by its velocity \<open>(XSpeed, YSpeed)\<close>.
\<close>

theorem inPaddle_meaning:
  assumes "0 \<le> Ball_Width b" "0 \<le> Ball_Height b" "0 \<le> Collider_Width st c"
  shows "(inPaddle st b c \<longleftrightarrow>
            {X b .. X b + Ball_Width b}
              \<inter> {fst (Collider_Location st c)
                   .. fst (Collider_Location st c) + Collider_Width st c} \<noteq> {}
          \<and> {Y b .. Y b + Ball_Height b}
              \<subseteq> {snd (Collider_Location st c)
                   .. snd (Collider_Location st c) + Collider_Height st c})
       \<and> (inPaddleNextTick st b c
            \<longleftrightarrow> inPaddle st (b\<lparr>X := X b + XSpeed b, Y := Y b + YSpeed b\<rparr>) c)"
proof -
  obtain cX cY where loc: "Collider_Location st c = (cX, cY)"
    by (cases "Collider_Location st c")
  have size: "Ball_Width (b\<lparr>X := X b + XSpeed b, Y := Y b + YSpeed b\<rparr>) = Ball_Width b"
    "Ball_Height (b\<lparr>X := X b + XSpeed b, Y := Y b + YSpeed b\<rparr>) = Ball_Height b"
    by (simp_all add: Ball_Width_def Ball_Height_def)
  have next_tick: "inPaddleNextTick st b c
      \<longleftrightarrow> inPaddle st (b\<lparr>X := X b + XSpeed b, Y := Y b + YSpeed b\<rparr>) c"
    by (simp add: inPaddle_def inPaddleNextTick_def loc Let_def size)
  have xs: "{X b .. X b + Ball_Width b} \<inter> {cX .. cX + Collider_Width st c} \<noteq> {}
     \<longleftrightarrow> X b + Ball_Width b \<ge> cX \<and> X b \<le> cX + Collider_Width st c"
    using assms by (auto simp: Int_atLeastAtMost)
  have ys: "{Y b .. Y b + Ball_Height b} \<subseteq> {cY .. cY + Collider_Height st c}
     \<longleftrightarrow> Y b \<ge> cY \<and> Y b + Ball_Height b \<le> cY + Collider_Height st c"
    using assms by (auto simp: atLeastatMost_subset_iff)
  have now: "inPaddle st b c \<longleftrightarrow>
            {X b .. X b + Ball_Width b} \<inter> {cX .. cX + Collider_Width st c} \<noteq> {}
          \<and> {Y b .. Y b + Ball_Height b} \<subseteq> {cY .. cY + Collider_Height st c}"
    unfolding xs ys by (simp add: inPaddle_def loc Let_def)
  from now next_tick show ?thesis by (simp add: loc)
qed

text \<open>The ball at (5, 20) lies within the height of the first paddle.\<close>

theorem inPaddle_meaning_witness:
  "0 \<le> Ball_Width ((balls setup_game 0)\<lparr>X := 5, Y := 20\<rparr>)
   \<and> 0 \<le> Ball_Height ((balls setup_game 0)\<lparr>X := 5, Y := 20\<rparr>)
   \<and> 0 \<le> Collider_Width setup_game (PlayerPtr 1)
   \<and> inPaddle setup_game ((balls setup_game 0)\<lparr>X := 5, Y := 20\<rparr>) (PlayerPtr 1)
   \<and> {Y ((balls setup_game 0)\<lparr>X := 5, Y := 20\<rparr>)
        .. Y ((balls setup_game 0)\<lparr>X := 5, Y := 20\<rparr>)
           + Ball_Height ((balls setup_game 0)\<lparr>X := 5, Y := 20\<rparr>)}
      \<subseteq> {snd (Collider_Location setup_game (PlayerPtr 1))
           .. snd (Collider_Location setup_game (PlayerPtr 1))
              + Collider_Height setup_game (PlayerPtr 1)}"
proof -
  let ?b = "(balls setup_game 0)\<lparr>X := 5, Y := 20\<rparr>"
  have h1: "0 \<le> Ball_Width ?b" by (simp add: setup_game_simps geometry_defs)
  have h2: "0 \<le> Ball_Height ?b" by (simp add: setup_game_simps geometry_defs)
  have h3: "0 \<le> Collider_Width setup_game (PlayerPtr 1)"
    by (simp add: setup_game_simps geometry_defs)
  have inside: "inPaddle setup_game ?b (PlayerPtr 1)"
    by (simp add: setup_game_simps geometry_defs)
  from inPaddle_meaning [OF h1 h2 h3] inside
  have "{Y ?b .. Y ?b + Ball_Height ?b}
      \<subseteq> {snd (Collider_Location setup_game (PlayerPtr 1))
           .. snd (Collider_Location setup_game (PlayerPtr 1))
              + Collider_Height setup_game (PlayerPtr 1)}"
    by blast
  with h1 h2 h3 inside show ?thesis by blast
qed

text \<open>
  C1, as the claim states it, fails. The ball at (5, 45) overlaps the box of the first
  paddle; it moves by (-1, -5), and the loop bounces it off that paddle: \<open>XSpeed\<close> goes
  from -1 to 1.
\<close>

theorem overlapping_ball_bounces:
  "spec_boxes_overlap
      (setup_game\<lparr>balls := (balls setup_game)
         (0 := (balls setup_game 0)\<lparr>X := 5, Y := 45, XSpeed := - 1, YSpeed := - 5\<rparr>)\<rparr>)
      ((balls setup_game 0)\<lparr>X := 5, Y := 45, XSpeed := - 1, YSpeed := - 5\<rparr>) (PlayerPtr 1)
   \<and> Update_scan
      (setup_game\<lparr>balls := (balls setup_game)
         (0 := (balls setup_game 0)\<lparr>X := 5, Y := 45, XSpeed := - 1, YSpeed := - 5\<rparr>)\<rparr>)
      0 [PlayerPtr 1]
     = Inr (setup_game\<lparr>balls := (balls setup_game)
         (0 := (balls setup_game 0)\<lparr>X := 5, Y := 45, XSpeed := 1, YSpeed := - 5\<rparr>)\<rparr>)"
  by (simp add: spec_boxes_overlap_def spec_extents_intersect_def setup_game_simps geometry_defs)

text \<open>
  C1, amended: the claim with the test of the source, \<open>inPaddle\<close>, in place of the overlap
  of the boxes. When the loop of \<^verbatim>\<open>Ball.Update\<close> ends without the panic, one of two
  things has happened. Either it has reached a collider for which \<open>inPaddle\<close> is false
  and \<open>inPaddleNextTick\<close> is true, no collider before it in the list is such a one, and
  the store differs by \<open>XSpeed\<close> multiplied by -1, once, whatever follows in the list;
  or no collider of the list is such a one and the store is unchanged. So a ball that is
  \<open>inPaddle\<close> for a collider is not bounced off that collider.
\<close>

theorem Update_scan_edge_triggered:
  assumes "Update_scan st b cs = Inr st1"
  shows "(\<exists>pre c post. cs = pre @ c # post
            \<and> (\<forall>d\<in>set pre. inPaddle st (balls st b) d \<or> \<not> inPaddleNextTick st (balls st b) d)
            \<and> \<not> inPaddle st (balls st b) c \<and> inPaddleNextTick st (balls st b) c
            \<and> st1 = st\<lparr>balls := (balls st)
                       (b := (balls st b)\<lparr>XSpeed := XSpeed (balls st b) * (- 1)\<rparr>)\<rparr>)
       \<or> ((\<forall>d\<in>set cs. inPaddle st (balls st b) d \<or> \<not> inPaddleNextTick st (balls st b) d)
            \<and> st1 = st)"
  using assms
proof (induction cs)
  case Nil
  then show ?case by simp
next
  case (Cons c cs)
  let ?quiet = "\<lambda>d. inPaddle st (balls st b) d \<or> \<not> inPaddleNextTick st (balls st b) d"
  let ?flipped = "st\<lparr>balls := (balls st)
                       (b := (balls st b)\<lparr>XSpeed := XSpeed (balls st b) * (- 1)\<rparr>)\<rparr>"
  show ?case
  proof (cases "?quiet c")
    case False
    with Cons.prems have "st1 = ?flipped"
      by (simp split: if_splits)
    with False have "c # cs = [] @ c # cs \<and> (\<forall>d\<in>set []. ?quiet d)
            \<and> \<not> inPaddle st (balls st b) c \<and> inPaddleNextTick st (balls st b) c
            \<and> st1 = ?flipped"
      by simp
    then show ?thesis by blast
  next
    case True
    with Cons.prems have rest: "Update_scan st b cs = Inr st1"
      by (auto split: if_splits)
    from Cons.IH [OF rest] show ?thesis
    proof
      assume "\<exists>pre c' post. cs = pre @ c' # post \<and> (\<forall>d\<in>set pre. ?quiet d)
            \<and> \<not> inPaddle st (balls st b) c' \<and> inPaddleNextTick st (balls st b) c'
            \<and> st1 = ?flipped"
      then obtain pre c' post where found: "cs = pre @ c' # post" "\<forall>d\<in>set pre. ?quiet d"
            "\<not> inPaddle st (balls st b) c'" "inPaddleNextTick st (balls st b) c'"
            "st1 = ?flipped"
        by blast
      from found True have "c # cs = (c # pre) @ c' # post \<and> (\<forall>d\<in>set (c # pre). ?quiet d)
            \<and> \<not> inPaddle st (balls st b) c' \<and> inPaddleNextTick st (balls st b) c'
            \<and> st1 = ?flipped"
        by simp
      then show ?thesis by blast
    next
      assume "(\<forall>d\<in>set cs. ?quiet d) \<and> st1 = st"
      with True show ?thesis by simp
    qed
  qed
qed

text \<open>
  The ball at (11, 20) moves left towards the first paddle, whose right edge is at 10.
  The second paddle, first in the list, is far away; the first paddle makes the loop
  break, and the ball itself, last in the list, is not looked at.
\<close>

theorem Update_scan_edge_triggered_witness:
  "Update_scan
     (setup_game\<lparr>balls := (balls setup_game)
        (0 := (balls setup_game 0)\<lparr>X := 11, Y := 20, XSpeed := - 1\<rparr>)\<rparr>)
     0 [PlayerPtr 2, PlayerPtr 1, BallPtr 0]
   = Inr (setup_game\<lparr>balls := (balls setup_game)
        (0 := (balls setup_game 0)\<lparr>X := 11, Y := 20, XSpeed := 1\<rparr>)\<rparr>)
   \<and> inPaddleNextTick
        (setup_game\<lparr>balls := (balls setup_game)
           (0 := (balls setup_game 0)\<lparr>X := 11, Y := 20, XSpeed := - 1\<rparr>)\<rparr>)
        ((balls setup_game 0)\<lparr>X := 11, Y := 20, XSpeed := - 1\<rparr>) (PlayerPtr 1)"
proof -
  let ?st = "setup_game\<lparr>balls := (balls setup_game)
        (0 := (balls setup_game 0)\<lparr>X := 11, Y := 20, XSpeed := - 1\<rparr>)\<rparr>"
  have h: "Update_scan ?st 0 [PlayerPtr 2, PlayerPtr 1, BallPtr 0]
   = Inr (setup_game\<lparr>balls := (balls setup_game)
        (0 := (balls setup_game 0)\<lparr>X := 11, Y := 20, XSpeed := 1\<rparr>)\<rparr>)"
    by (simp add: setup_game_simps geometry_defs)
  from Update_scan_edge_triggered [OF h] h show ?thesis
    by (simp add: setup_game_simps geometry_defs)
qed

section \<open>The panic of Ball.Update\<close>

text \<open>
  C2, as the claim states it, fails. The ball at (11, 20) moves left; the list holds the
  first paddle and then the ball itself. The paddle makes the loop break, the ball is
  never compared with itself, and \<^verbatim>\<open>Ball.Update\<close> returns with the ball at (12, 21).
\<close>

theorem self_after_bounce_returns:
  "BallPtr 0 \<in> set [PlayerPtr 1, BallPtr 0]
   \<and> Ball_Update
      (setup_game\<lparr>balls := (balls setup_game)
         (0 := (balls setup_game 0)\<lparr>X := 11, Y := 20, XSpeed := - 1\<rparr>)\<rparr>)
      0 [PlayerPtr 1, BallPtr 0]
     = Inr (setup_game\<lparr>balls := (balls setup_game)
         (0 := (balls setup_game 0)\<lparr>X := 12, Y := 21, XSpeed := 1\<rparr>)\<rparr>)"
  by (simp add: Ball_Update_def Update_edges_def setup_game_simps geometry_defs Let_def)

text \<open>
  C2, amended. \<^verbatim>\<open>Ball.Update\<close> panics exactly when the ball itself is in the list of
  colliders at a place that no bouncing collider precedes: every collider before it has
  \<open>inPaddle\<close> true or \<open>inPaddleNextTick\<close> false.
\<close>

theorem Ball_Update_panics_iff:
  "Ball_Update st b cs = Inl SelfCollision \<longleftrightarrow>
     (\<exists>pre post. cs = pre @ BallPtr b # post
        \<and> (\<forall>d\<in>set pre. inPaddle st (balls st b) d \<or> \<not> inPaddleNextTick st (balls st b) d))"
proof -
  have "Ball_Update st b cs = Inl SelfCollision \<longleftrightarrow> Update_scan st b cs = Inl SelfCollision"
    by (simp add: Ball_Update_def split: sum.splits)
  then show ?thesis by (simp only: Update_scan_panics_iff)
qed

text \<open>The same ball, with itself between the far paddle and the near one.\<close>

theorem Ball_Update_panics_iff_witness:
  "Ball_Update
     (setup_game\<lparr>balls := (balls setup_game)
        (0 := (balls setup_game 0)\<lparr>X := 11, Y := 20, XSpeed := - 1\<rparr>)\<rparr>)
     0 [PlayerPtr 2, BallPtr 0, PlayerPtr 1] = Inl SelfCollision"
proof -
  let ?st = "setup_game\<lparr>balls := (balls setup_game)
        (0 := (balls setup_game 0)\<lparr>X := 11, Y := 20, XSpeed := - 1\<rparr>)\<rparr>"
  have "[PlayerPtr 2, BallPtr 0, PlayerPtr 1] = [PlayerPtr 2] @ BallPtr 0 # [PlayerPtr 1]
      \<and> (\<forall>d\<in>set [PlayerPtr 2].
            inPaddle ?st (balls ?st 0) d \<or> \<not> inPaddleNextTick ?st (balls ?st 0) d)"
    by (simp add: setup_game_simps geometry_defs)
  then have "\<exists>pre post. [PlayerPtr 2, BallPtr 0, PlayerPtr 1] = pre @ BallPtr 0 # post
      \<and> (\<forall>d\<in>set pre. inPaddle ?st (balls ?st 0) d \<or> \<not> inPaddleNextTick ?st (balls ?st 0) d)"
    by blast
  then show ?thesis by (rule Ball_Update_panics_iff [THEN iffD2])
qed

section \<open>The screen edges in Ball.Update\<close>

text \<open>
  C7, as the claim states it, fails. The ball is at X = 0 and moves left, at (0, 41) with
  velocity (-1, -1); the colliders are the two paddles, as the game loop passes them. The
  ball comes within the height of the first paddle in this tick, so the loop negates
  \<open>XSpeed\<close>; the edge test negates it again, and the ball leaves the screen at X = -1,
  still moving left.
\<close>

theorem left_edge_bounce_cancelled:
  "Ball_Update
      (setup_game\<lparr>balls := (balls setup_game)
         (0 := (balls setup_game 0)\<lparr>X := 0, Y := 41, XSpeed := - 1, YSpeed := - 1\<rparr>)\<rparr>)
      0 [PlayerPtr 1, PlayerPtr 2]
     = Inr (setup_game\<lparr>balls := (balls setup_game)
         (0 := (balls setup_game 0)\<lparr>X := - 1, Y := 40, XSpeed := - 1, YSpeed := - 1\<rparr>)\<rparr>)
   \<and> \<not> 0 < XSpeed (balls (setup_game\<lparr>balls := (balls setup_game)
         (0 := (balls setup_game 0)\<lparr>X := - 1, Y := 40, XSpeed := - 1, YSpeed := - 1\<rparr>)\<rparr>) 0)"
  by (simp add: Ball_Update_def Update_edges_def setup_game_simps geometry_defs Let_def)

text \<open>
  C7, amended. In a call of \<^verbatim>\<open>Ball.Update\<close> that returns, the edge tests act on the
  velocity that the collider loop has left: \<open>XSpeed\<close> after the call is the negation of
  the loop's \<open>XSpeed\<close> when the ball's box touches or crosses the left or the right edge
  (\<open>X \<le> 0\<close> or \<open>X + Width \<ge> screenWidth\<close>) and the loop's \<open>XSpeed\<close> otherwise;
  \<open>YSpeed\<close> is negated exactly when the box touches or crosses the top or the bottom
  edge. For a ball at X = 0 that moves left, \<open>XSpeed\<close> is positive after the call when no
  collider makes the ball bounce in that call.
\<close>

theorem Ball_Update_edge_reversal:
  assumes "Ball_Update st b cs = Inr st'"
  shows "\<exists>st1. Update_scan st b cs = Inr st1
     \<and> XSpeed (balls st' b) =
         (if X (balls st b) \<le> 0 \<or> X (balls st b) + Ball_Width (balls st b) \<ge> screenWidth
          then - XSpeed (balls st1 b) else XSpeed (balls st1 b))
     \<and> YSpeed (balls st' b) =
         (if Y (balls st b) \<le> 0 \<or> Y (balls st b) + Ball_Height (balls st b) \<ge> screenHeight
          then - YSpeed (balls st b) else YSpeed (balls st b))
     \<and> (X (balls st b) = 0 \<and> XSpeed (balls st b) < 0
          \<and> (\<forall>c\<in>set cs. inPaddle st (balls st b) c \<or> \<not> inPaddleNextTick st (balls st b) c)
        \<longrightarrow> XSpeed (balls st' b) > 0)"
proof -
  from assms obtain st1 where scan: "Update_scan st b cs = Inr st1"
    and st': "st' = st1\<lparr>balls := (balls st1)(b := Update_edges (balls st1 b))\<rparr>"
    by (auto simp: Ball_Update_def split: sum.splits)
  from Update_scan_cases [OF scan]
  have same: "X (balls st1 b) = X (balls st b)" "Y (balls st1 b) = Y (balls st b)"
    "Ball_Width (balls st1 b) = Ball_Width (balls st b)"
    "Ball_Height (balls st1 b) = Ball_Height (balls st b)"
    "YSpeed (balls st1 b) = YSpeed (balls st b)"
    by (auto simp: Ball_Width_def Ball_Height_def)
  have x: "XSpeed (balls st' b) =
         (if X (balls st b) \<le> 0 \<or> X (balls st b) + Ball_Width (balls st b) \<ge> screenWidth
          then - XSpeed (balls st1 b) else XSpeed (balls st1 b))"
    by (simp add: st' Update_edges_XSpeed same)
  have y: "YSpeed (balls st' b) =
         (if Y (balls st b) \<le> 0 \<or> Y (balls st b) + Ball_Height (balls st b) \<ge> screenHeight
          then - YSpeed (balls st b) else YSpeed (balls st b))"
    by (simp add: st' Update_edges_YSpeed same)
  have left: "XSpeed (balls st' b) > 0"
    if "X (balls st b) = 0" "XSpeed (balls st b) < 0"
       "\<forall>c\<in>set cs. inPaddle st (balls st b) c \<or> \<not> inPaddleNextTick st (balls st b) c"
  proof -
    from Update_scan_no_trigger [OF scan that(3)] have "st1 = st" .
    with x that show ?thesis by simp
  qed
  from scan x y left show ?thesis by blast
qed

text \<open>The ball at (0, 100) moves left, below the first paddle: it turns round at the edge.\<close>

theorem Ball_Update_edge_reversal_witness:
  "Ball_Update
      (setup_game\<lparr>balls := (balls setup_game)
         (0 := (balls setup_game 0)\<lparr>X := 0, Y := 100, XSpeed := - 1\<rparr>)\<rparr>)
      0 [PlayerPtr 1, PlayerPtr 2]
     = Inr (setup_game\<lparr>balls := (balls setup_game)
         (0 := (balls setup_game 0)\<lparr>X := 1, Y := 101, XSpeed := 1\<rparr>)\<rparr>)
   \<and> 0 < XSpeed (balls (setup_game\<lparr>balls := (balls setup_game)
         (0 := (balls setup_game 0)\<lparr>X := 1, Y := 101, XSpeed := 1\<rparr>)\<rparr>) 0)"
proof -
  let ?st = "setup_game\<lparr>balls := (balls setup_game)
         (0 := (balls setup_game 0)\<lparr>X := 0, Y := 100, XSpeed := - 1\<rparr>)\<rparr>"
  let ?st' = "setup_game\<lparr>balls := (balls setup_game)
         (0 := (balls setup_game 0)\<lparr>X := 1, Y := 101, XSpeed := 1\<rparr>)\<rparr>"
  have h: "Ball_Update ?st 0 [PlayerPtr 1, PlayerPtr 2] = Inr ?st'"
    by (simp add: Ball_Update_def Update_edges_def setup_game_simps geometry_defs Let_def)
  have at_edge: "X (balls ?st 0) = 0 \<and> XSpeed (balls ?st 0) < 0
          \<and> (\<forall>c\<in>set [PlayerPtr 1, PlayerPtr 2].
                inPaddle ?st (balls ?st 0) c \<or> \<not> inPaddleNextTick ?st (balls ?st 0) c)"
    by (simp add: setup_game_simps geometry_defs)
  from Ball_Update_edge_reversal [OF h] at_edge have "0 < XSpeed (balls ?st' 0)"
    by blast
  with h show ?thesis by simp
qed

section \<open>Player.Update and the edges of the screen\<close>




section \<open>FollowBall: the commit window\<close>

text \<open>
  C4. When the counter of a \<^verbatim>\<open>FollowBall\<close> is 0 and \<^verbatim>\<open>Input\<close> returns Up or Down, each
  of the next 15 calls returns the same decision, wherever the balls and the players are
  before each call. After them the counter is 0 again, and the 16th call decides from the
  positions it finds, by the tests of the source and nothing else.
\<close>

theorem FollowBall_commit_window:
  assumes "count (followballs st f) = 0" "FollowBall_Input st f = (d, st1)" "d \<noteq> Nothing"
    "length es = 15"
  shows "fst (FollowBall_Inputs st1 f es) = replicate 15 d
       \<and> count (followballs (snd (FollowBall_Inputs st1 f es)) f) = 0
       \<and> (\<forall>bs ps.
            fst (FollowBall_Input (snd (FollowBall_Inputs st1 f es)\<lparr>balls := bs, players := ps\<rparr>) f) =
            (if \<bar>X (bs (Ball_ptr (followballs st f))) - X (ps (Player_ptr (followballs st f)))\<bar>
                  < 0.6 * screenWidth
             then if Y (bs (Ball_ptr (followballs st f)))
                       < Y (ps (Player_ptr (followballs st f)))
                         - Speed (ps (Player_ptr (followballs st f)))
                  then Up
                  else if Y (bs (Ball_ptr (followballs st f)))
                       > Y (ps (Player_ptr (followballs st f)))
                         + Speed (ps (Player_ptr (followballs st f)))
                  then Down else Nothing
             else Nothing))"
proof -
  from FollowBall_Input_decision [OF assms(1-3)]
  have fb1: "followballs st1 f = (followballs st f)\<lparr>count := 15, lastDecision := d\<rparr>" .
  with assms(4) have "count (followballs st1 f) = int (length es)" by simp
  from FollowBall_Inputs_window [OF this] fb1 assms(4)
  have run: "fst (FollowBall_Inputs st1 f es) = replicate 15 d"
    and fb16: "followballs (snd (FollowBall_Inputs st1 f es)) f
                 = (followballs st f)\<lparr>count := 0, lastDecision := d\<rparr>"
    by simp_all
  have "fst (FollowBall_Input (snd (FollowBall_Inputs st1 f es)\<lparr>balls := bs, players := ps\<rparr>) f) =
            (if \<bar>X (bs (Ball_ptr (followballs st f))) - X (ps (Player_ptr (followballs st f)))\<bar>
                  < 0.6 * screenWidth
             then if Y (bs (Ball_ptr (followballs st f)))
                       < Y (ps (Player_ptr (followballs st f)))
                         - Speed (ps (Player_ptr (followballs st f)))
                  then Up
                  else if Y (bs (Ball_ptr (followballs st f)))
                       > Y (ps (Player_ptr (followballs st f)))
                         + Speed (ps (Player_ptr (followballs st f)))
                  then Down else Nothing
             else Nothing)" for bs ps
    by (subst FollowBall_Input_fresh) (simp_all add: fb16)
  with run fb16 show ?thesis by simp
qed

text \<open>
  The first call of the game decides Up: the ball at Y = 115 is above the paddle at
  Y = 190. In the next 15 ticks the ball is at Y = 230, below the paddle, and the
  controller still says Up.
\<close>

theorem FollowBall_commit_window_witness:
  "count (followballs setup_game 0) = 0
   \<and> FollowBall_Input setup_game 0
       = (Up, setup_game\<lparr>followballs := (followballs setup_game)
                (0 := \<lparr>Ball_ptr = 0, Player_ptr = 2, lastDecision = Up, count = 15\<rparr>)\<rparr>)
   \<and> length (replicate 15 (\<lambda>a. (balls setup_game a)\<lparr>Y := 230\<rparr>, players setup_game)) = 15
   \<and> fst (FollowBall_Inputs
            (setup_game\<lparr>followballs := (followballs setup_game)
                (0 := \<lparr>Ball_ptr = 0, Player_ptr = 2, lastDecision = Up, count = 15\<rparr>)\<rparr>) 0
            (replicate 15 (\<lambda>a. (balls setup_game a)\<lparr>Y := 230\<rparr>, players setup_game)))
       = replicate 15 Up"
proof -
  have h1: "count (followballs setup_game 0) = 0" by (simp add: setup_game_simps)
  have h2: "FollowBall_Input setup_game 0
       = (Up, setup_game\<lparr>followballs := (followballs setup_game)
                (0 := \<lparr>Ball_ptr = 0, Player_ptr = 2, lastDecision = Up, count = 15\<rparr>)\<rparr>)"
    by (simp add: FollowBall_Input_def setup_game_simps Location_def screenWidth_def
        decisionBuffer_def)
  have h3: "Up \<noteq> Nothing" by simp
  have h4: "length (replicate 15 (\<lambda>a. (balls setup_game a)\<lparr>Y := 230\<rparr>, players setup_game)) = 15"
    by simp
  from FollowBall_commit_window [OF h1 h2 h3 h4] h1 h2 h4 show ?thesis by simp
qed

text \<open>
  C10. For a \<^verbatim>\<open>FollowBall\<close> that starts with the counter at 0, after any run of calls
  of \<^verbatim>\<open>Input\<close> the counter is between 0 and 15, and when it is positive the stored
  decision is Up or Down, so that the next call, which the commit window serves, does not
  return \<open>Nothing\<close>.
\<close>

theorem FollowBall_count_invariant:
  assumes "count (followballs st f) = 0"
  shows "0 \<le> count (followballs (snd (FollowBall_Inputs st f es)) f)
       \<and> count (followballs (snd (FollowBall_Inputs st f es)) f) \<le> 15
       \<and> (count (followballs (snd (FollowBall_Inputs st f es)) f) > 0 \<longrightarrow>
            (lastDecision (followballs (snd (FollowBall_Inputs st f es)) f) = Up
             \<or> lastDecision (followballs (snd (FollowBall_Inputs st f es)) f) = Down)
            \<and> (\<forall>bs ps.
                 fst (FollowBall_Input (snd (FollowBall_Inputs st f es)\<lparr>balls := bs, players := ps\<rparr>) f)
                  \<noteq> Nothing))"
proof -
  let ?fb = "followballs (snd (FollowBall_Inputs st f es)) f"
  from assms FollowBall_Inputs_invariant [of st f es]
  have inv: "0 \<le> count ?fb" "count ?fb \<le> 15" "count ?fb > 0 \<longrightarrow> lastDecision ?fb \<noteq> Nothing"
    by simp_all
  have dir: "lastDecision ?fb = Up \<or> lastDecision ?fb = Down" if "count ?fb > 0"
    using inv(3) that by (cases "lastDecision ?fb") simp_all
  have served:
    "fst (FollowBall_Input (snd (FollowBall_Inputs st f es)\<lparr>balls := bs, players := ps\<rparr>) f) \<noteq> Nothing"
    if "count ?fb > 0" for bs ps
    using inv(3) that by (subst FollowBall_Input_window) simp_all
  from inv dir served show ?thesis by blast
qed

text \<open>Two ticks from the start of the game: the counter goes to 15 and then to 14.\<close>

theorem FollowBall_count_invariant_witness:
  "count (followballs setup_game 0) = 0
   \<and> 0 \<le> count (followballs (snd (FollowBall_Inputs setup_game 0
         [(balls setup_game, players setup_game), (balls setup_game, players setup_game)])) 0)
   \<and> count (followballs (snd (FollowBall_Inputs setup_game 0
         [(balls setup_game, players setup_game), (balls setup_game, players setup_game)])) 0) \<le> 15
   \<and> count (followballs (snd (FollowBall_Inputs setup_game 0
         [(balls setup_game, players setup_game), (balls setup_game, players setup_game)])) 0) = 14"
proof -
  have h: "count (followballs setup_game 0) = 0" by (simp add: setup_game_simps)
  have v: "count (followballs (snd (FollowBall_Inputs setup_game 0
         [(balls setup_game, players setup_game), (balls setup_game, players setup_game)])) 0) = 14"
    by (simp add: FollowBall_Input_def setup_game_simps Location_def screenWidth_def
        decisionBuffer_def Let_def)
  from FollowBall_count_invariant [OF h,
      of "[(balls setup_game, players setup_game), (balls setup_game, players setup_game)]"] h v
  show ?thesis by simp
qed

end
